theory Spec2Isabelle
  imports Main
begin

section \<open>Data model\<close>

text \<open>
  The lesson-plan approval system has a browser client (the React application) and an
  Express server that keeps the whole data set in one object \<open>db\<close>. The types below are
  the TypeScript declarations of the client, which are also the shape of \<open>db.json\<close>.

  Identifiers are JavaScript numbers, modelled as \<open>nat\<close>; an optional field
  (\<open>teamId?: number\<close>) is an \<open>option\<close>. A JavaScript string that the code inspects
  (a rejection reason, a comment) is a list of UTF-16 code units; names and school
  identifiers are only compared, and are plain strings. Time stamps are the clock's
  milliseconds; each request reads the clock once, the reading being the argument
  \<open>now\<close> of the handler. Objects are stored by value, as \<open>db.json\<close> holds them.
\<close>

type_synonym jsstring = "nat list"

datatype Role = ADMIN | TEACHER | DEPUTY_TEAM_LEADER | TEAM_LEADER | VICE_PRINCIPAL | PRINCIPAL

text \<open>
  The seven values of \<open>enum Status\<close>. The server takes the new status from the request
  body without looking at it, so a status can also be any other text: \<open>UNLISTED\<close>.
\<close>

datatype Status =
    DRAFT | SUBMITTED | REJECTED_BY_TL | APPROVED_BY_TL | APPROVED | REJECTED_BY_VP | ISSUED
  | UNLISTED string

text \<open>The labels of \<open>type HistoryAction\<close>, in the order of the declaration.\<close>

datatype HistoryAction =
    Tao_ban_nhap
  | Cap_nhat_ban_nhap
  | Nop_Ke_hoach_bai_day
  | Nop_lai_Ke_hoach_bai_day
  | To_truong_da_duyet
  | To_truong_tu_choi
  | To_truong_huy_duyet
  | Hieu_truong_da_duyet
  | Hieu_truong_tu_choi
  | Hieu_truong_huy_duyet
  | Da_ban_hanh
  | Thu_hoi_de_chinh_sua
  | Cap_nhat_trang_thai

record School =
  s_id :: string
  s_name :: string

record User =
  u_id :: nat
  u_name :: string
  u_role :: Role
  u_teamId :: "nat option"
  u_schoolId :: "string option"

record Team =
  t_id :: nat
  t_name :: string
  t_leaderId :: "nat option"
  t_deputyLeaderId :: "nat option"
  t_schoolId :: "string option"

text \<open>\<open>teamDelegation\<close> is a JavaScript object keyed by team id: a partial map.\<close>

record DelegationState =
  principalToVp :: bool
  teamDelegation :: "nat \<rightharpoonup> bool"

record HistoryEntry =
  h_action :: HistoryAction
  h_user :: "User option"
  h_timestamp :: nat
  h_reason :: "jsstring option"

record CommentEntry =
  c_id :: nat
  c_user :: User
  c_timestamp :: nat
  c_text :: jsstring

record FileRef =
  f_name :: string
  f_url :: string
  f_isExternalLink :: "bool option"

record OneDriveFolder =
  o_id :: string
  o_name :: string
  o_driveId :: string

text \<open>
  The fields of \<open>interface LessonPlan\<close>. The server stores a plan as the object it
  built, so a stored plan can lack a title and can have keys that the interface does
  not declare: \<open>p_other\<close> holds those, each with the JSON text of its value.
\<close>

record LessonPlan =
  p_id :: nat
  p_title :: "string option"
  p_submittedBy :: User
  p_submittedAt :: nat
  p_status :: Status
  p_history :: "HistoryEntry list"
  p_comments :: "CommentEntry list option"
  p_file :: FileRef
  p_finalApprover :: "User option"
  p_finalApprovedAt :: "nat option"
  p_subject :: "string option"
  p_grade :: "string option"
  p_class :: "string option"
  p_notes :: "string option"
  p_oneDriveFolder :: "OneDriveFolder option"
  p_teamId :: "nat option"
  p_schoolId :: "string option"
  p_other :: "(string \<times> string) list"

record Db =
  schools :: "School list"
  users :: "User list"
  teams :: "Team list"
  lessonPlans :: "LessonPlan list"
  delegation :: DelegationState

section \<open>JavaScript built-ins used by the code\<close>

text \<open>
  \<open>Array.prototype.findIndex\<close>: the index of the first element that satisfies the
  test; JavaScript's \<open>-1\<close> is \<open>None\<close>. \<open>Array.prototype.find\<close> is \<open>List.find\<close>.
\<close>

fun findIndex :: "('a \<Rightarrow> bool) \<Rightarrow> 'a list \<Rightarrow> nat option" where
  "findIndex P [] = None"
| "findIndex P (x # xs) =
     (if P x then Some 0 else map_option Suc (findIndex P xs))"

text \<open>
  \<open>String.prototype.trim\<close> removes the white space and the line terminators of
  ECMAScript from both ends: TAB, LF, VT, FF, CR, SP, NBSP, U+1680, U+2000 to U+200A,
  U+2028, U+2029, U+202F, U+205F, U+3000 and U+FEFF, each one code unit.
\<close>

definition isWhiteSpace :: "nat \<Rightarrow> bool" where
  "isWhiteSpace c \<longleftrightarrow>
     c = 9 \<or> c = 10 \<or> c = 11 \<or> c = 12 \<or> c = 13 \<or> c = 32 \<or> c = 160 \<or> c = 5760 \<or>
     (8192 \<le> c \<and> c \<le> 8202) \<or> c = 8232 \<or> c = 8233 \<or> c = 8239 \<or> c = 8287 \<or>
     c = 12288 \<or> c = 65279"

definition trim :: "jsstring \<Rightarrow> jsstring" where
  "trim s = rev (dropWhile isWhiteSpace (rev (dropWhile isWhiteSpace s)))"

text \<open>A number is falsy when it is \<open>0\<close>; \<open>x || undefined\<close> on an optional number.\<close>

fun truthyId :: "nat option \<Rightarrow> nat option" where
  "truthyId None = None"
| "truthyId (Some n) = (if n = 0 then None else Some n)"

section \<open>The client: approval guard of the lesson-plan card\<close>

datatype ActionType = approve | reject | cancel

text \<open>
  \<open>!!delegation.teamDelegation[plan.teamId!]\<close>: the flag of the plan's team, false when
  the plan has no team or the object has no entry for it.
\<close>

fun teamFlag :: "DelegationState \<Rightarrow> nat option \<Rightarrow> bool" where
  "teamFlag d None = False"
| "teamFlag d (Some t) = (teamDelegation d t = Some True)"

definition canApproveTeam :: "User \<Rightarrow> LessonPlan \<Rightarrow> DelegationState \<Rightarrow> bool" where
  "canApproveTeam currentUser plan d \<longleftrightarrow>
     (u_role currentUser = TEAM_LEADER \<and> u_teamId currentUser = p_teamId plan) \<or>
     (u_role currentUser = DEPUTY_TEAM_LEADER \<and> u_teamId currentUser = p_teamId plan \<and>
      teamFlag d (p_teamId plan))"

definition canApprovePrincipal :: "User \<Rightarrow> DelegationState \<Rightarrow> bool" where
  "canApprovePrincipal currentUser d \<longleftrightarrow>
     u_role currentUser = PRINCIPAL \<or>
     (u_role currentUser = VICE_PRINCIPAL \<and> principalToVp d)"

text \<open>
  \<open>renderApprovalActions\<close> returns the buttons of the card; the model returns the
  action each button opens the dialog with (\<open>handleActionClick\<close>), \<open>[]\<close> for \<open>null\<close>.
  The source has one block for the team tier and one for the institution tier, each
  with two tests of the status; a block whose tests fail falls through to what follows,
  which the chain of conditions below spells out.
\<close>

definition renderApprovalActions ::
  "User \<Rightarrow> LessonPlan \<Rightarrow> DelegationState \<Rightarrow> ActionType list" where
  "renderApprovalActions currentUser plan d =
     (if u_role currentUser = TEACHER then []
      else if canApproveTeam currentUser plan d \<and> p_status plan = SUBMITTED
        then [approve, reject]
      else if canApproveTeam currentUser plan d \<and> p_status plan = APPROVED_BY_TL
        then [cancel]
      else if canApprovePrincipal currentUser d \<and> p_status plan = APPROVED_BY_TL
        then [approve, reject]
      else if canApprovePrincipal currentUser d \<and> p_status plan = APPROVED
        then [cancel]
      else [])"

section \<open>The client: visibility\<close>

text \<open>\<open>baseVisiblePlans\<close> of the dashboard, a switch on the role of the current user.\<close>

fun visibleToVicePrincipal :: "Status \<Rightarrow> bool" where
  "visibleToVicePrincipal APPROVED_BY_TL = True"
| "visibleToVicePrincipal REJECTED_BY_VP = True"
| "visibleToVicePrincipal APPROVED = True"
| "visibleToVicePrincipal ISSUED = True"
| "visibleToVicePrincipal _ = False"

definition baseVisiblePlans :: "User \<Rightarrow> LessonPlan list \<Rightarrow> LessonPlan list" where
  "baseVisiblePlans currentUser plans =
     (case u_role currentUser of
        TEACHER \<Rightarrow> filter (\<lambda>p. u_id (p_submittedBy p) = u_id currentUser) plans
      | DEPUTY_TEAM_LEADER \<Rightarrow> filter (\<lambda>p. p_teamId p = u_teamId currentUser) plans
      | TEAM_LEADER \<Rightarrow> filter (\<lambda>p. p_teamId p = u_teamId currentUser) plans
      | VICE_PRINCIPAL \<Rightarrow> filter (\<lambda>p. visibleToVicePrincipal (p_status p)) plans
      | PRINCIPAL \<Rightarrow> plans
      | ADMIN \<Rightarrow> [])"

text \<open>
  \<open>renderTeacherActions\<close>: the buttons of the owner. \<open>SubmitButton\<close> calls
  \<open>onAction(plan.id, Status.SUBMITTED)\<close>, \<open>RecallButton\<close> calls
  \<open>onAction(plan.id, Status.DRAFT)\<close>; the two edit buttons open the editor.
\<close>

datatype TeacherButton = EditButton | SubmitButton | EditAndResubmitButton | RecallButton

definition renderTeacherActions :: "User \<Rightarrow> LessonPlan \<Rightarrow> TeacherButton list" where
  "renderTeacherActions currentUser plan =
     (if u_role currentUser \<noteq> TEACHER \<or> u_id currentUser \<noteq> u_id (p_submittedBy plan)
      then []
      else (case p_status plan of
              DRAFT \<Rightarrow> [EditButton, SubmitButton]
            | REJECTED_BY_TL \<Rightarrow> [EditAndResubmitButton]
            | REJECTED_BY_VP \<Rightarrow> [EditAndResubmitButton]
            | SUBMITTED \<Rightarrow> [RecallButton]
            | APPROVED_BY_TL \<Rightarrow> [RecallButton]
            | _ \<Rightarrow> []))"

fun teacherButtonStatus :: "TeacherButton \<Rightarrow> Status option" where
  "teacherButtonStatus SubmitButton = Some SUBMITTED"
| "teacherButtonStatus RecallButton = Some DRAFT"
| "teacherButtonStatus _ = None"

section \<open>The client: confirming an action\<close>

text \<open>
  \<open>handleConfirmAction(reason)\<close> of the card, for the action the dialog was opened
  with. It ends in one of three ways: the error notice that the reason is missing,
  closing the dialog without a request, or the call \<open>onAction(plan.id, newStatus, reason)\<close>.
\<close>

datatype ConfirmEffect =
    NotifyMissingReason
  | CloseModal
  | OnAction nat Status "jsstring option"

text \<open>\<open>!reason?.trim()\<close>: no reason, or one that is empty once trimmed.\<close>

fun reasonBlank :: "jsstring option \<Rightarrow> bool" where
  "reasonBlank None = True"
| "reasonBlank (Some r) = (trim r = [])"

definition handleConfirmAction ::
  "ActionType \<Rightarrow> User \<Rightarrow> LessonPlan \<Rightarrow> jsstring option \<Rightarrow> ConfirmEffect" where
  "handleConfirmAction actionType currentUser plan reason =
     (if actionType = reject \<and> reasonBlank reason then NotifyMissingReason
      else if actionType = approve then
        (if p_status plan = SUBMITTED then OnAction (p_id plan) APPROVED_BY_TL reason
         else if p_status plan = APPROVED_BY_TL then OnAction (p_id plan) APPROVED reason
         else CloseModal)
      else if actionType = cancel then
        (if p_status plan = APPROVED_BY_TL then OnAction (p_id plan) SUBMITTED reason
         else if p_status plan = APPROVED then OnAction (p_id plan) APPROVED_BY_TL reason
         else CloseModal)
      else
        (if u_role currentUser = TEAM_LEADER \<or> u_role currentUser = DEPUTY_TEAM_LEADER
           then OnAction (p_id plan) REJECTED_BY_TL reason
         else if u_role currentUser = PRINCIPAL \<or> u_role currentUser = VICE_PRINCIPAL
           then OnAction (p_id plan) REJECTED_BY_VP reason
         else CloseModal))"

section \<open>The client: tenant scope of the dashboard\<close>

text \<open>
  \<open>schoolData.lessonPlans\<close>: the plans of the selected school, none when no school is
  selected. The dashboard gets all plans for the global administrator and the school's
  plans for everybody else; the cards are made from \<open>baseVisiblePlans\<close> of that list.
\<close>

definition schoolLessonPlans :: "School option \<Rightarrow> LessonPlan list \<Rightarrow> LessonPlan list" where
  "schoolLessonPlans selectedSchool plans =
     (case selectedSchool of
        None \<Rightarrow> []
      | Some school \<Rightarrow> filter (\<lambda>p. p_schoolId p = Some (s_id school)) plans)"

definition dashboardLessonPlans ::
  "User \<Rightarrow> School option \<Rightarrow> LessonPlan list \<Rightarrow> LessonPlan list" where
  "dashboardLessonPlans currentUser selectedSchool plans =
     (if u_role currentUser = ADMIN then plans else schoolLessonPlans selectedSchool plans)"

text \<open>
  \<open>handleLogin\<close> looks the user up among the known users: e-mail and password must
  match (the parameter \<open>credentials\<close>), and the user belongs to the selected school or
  is the global administrator. \<open>selectedSchool?.id\<close> is undefined without a school.
\<close>

definition handleLogin ::
  "(User \<Rightarrow> bool) \<Rightarrow> User list \<Rightarrow> School option \<Rightarrow> User option" where
  "handleLogin credentials knownUsers selectedSchool =
     find (\<lambda>u. credentials u \<and>
                (u_schoolId u = map_option s_id selectedSchool \<or> u_role u = ADMIN))
          knownUsers"

section \<open>The client: delegation switches\<close>

datatype DelegationKind = vp | team

text \<open>
  \<open>handleDelegationChange(type, teamId?)\<close> of the administration dialog flips one flag
  and hands the result to \<open>onSetDelegation\<close>, which puts it on the server.
\<close>

definition handleDelegationChange ::
  "DelegationState \<Rightarrow> DelegationKind \<Rightarrow> nat option \<Rightarrow> DelegationState" where
  "handleDelegationChange d kind teamId =
     (if kind = vp then d\<lparr>principalToVp := \<not> principalToVp d\<rparr>
      else (case truthyId teamId of
              None \<Rightarrow> d
            | Some t \<Rightarrow>
                d\<lparr>teamDelegation := (teamDelegation d)(t \<mapsto> \<not> teamFlag d (Some t))\<rparr>))"

definition put_delegation :: "Db \<Rightarrow> DelegationState \<Rightarrow> Db" where
  "put_delegation db newDelegation = db\<lparr>delegation := newDelegation\<rparr>"

section \<open>The server\<close>

text \<open>
  The answers of the handlers that are not a success, one per message. A request has
  a JSON body (for the upload, a form) with the keys the handler reads.
\<close>

datatype error =
    LessonPlanNotFound
  | FileRequired
  | SubmitterNotFound
  | Unauthorized
  | CommentTextEmpty
  | TeamNotFound

subsection \<open>PUT /api/lesson-plans/:id/status\<close>

text \<open>
  The handler takes the acting user from the data set: the user with id 4. The switch
  on the new status picks the history label; a status outside the enumeration keeps
  the default label.
\<close>

definition statusCurrentUser :: "Db \<Rightarrow> User option" where
  "statusCurrentUser db = find (\<lambda>u. u_id u = 4) (users db)"

fun statusAction :: "Status \<Rightarrow> HistoryAction" where
  "statusAction SUBMITTED = Nop_lai_Ke_hoach_bai_day"
| "statusAction REJECTED_BY_TL = To_truong_tu_choi"
| "statusAction APPROVED_BY_TL = To_truong_da_duyet"
| "statusAction APPROVED = Hieu_truong_da_duyet"
| "statusAction REJECTED_BY_VP = Hieu_truong_tu_choi"
| "statusAction ISSUED = Da_ban_hanh"
| "statusAction DRAFT = Thu_hoi_de_chinh_sua"
| "statusAction (UNLISTED s) = Cap_nhat_trang_thai"

text \<open>\<open>...(reason && { reason })\<close>: an empty reason leaves no key in the entry.\<close>

fun truthyReason :: "jsstring option \<Rightarrow> jsstring option" where
  "truthyReason None = None"
| "truthyReason (Some r) = (if r = [] then None else Some r)"

text \<open>What the handler does to the plan it found.\<close>

definition statusUpdate ::
  "User option \<Rightarrow> Status \<Rightarrow> jsstring option \<Rightarrow> nat \<Rightarrow> LessonPlan \<Rightarrow> LessonPlan" where
  "statusUpdate currentUser newStatus reason now plan =
     (let plan1 = plan\<lparr>p_status := newStatus\<rparr>;
          plan2 = (if newStatus = ISSUED
                   then plan1\<lparr>p_finalApprover := currentUser, p_finalApprovedAt := Some now\<rparr>
                   else plan1)
      in plan2\<lparr>p_history := p_history plan2 @
                 [\<lparr>h_action = statusAction newStatus, h_user = currentUser,
                   h_timestamp = now, h_reason = truthyReason reason\<rparr>]\<rparr>)"

text \<open>The response of a success is the stored plan; the model returns the data set.\<close>

definition put_lesson_plan_status ::
  "Db \<Rightarrow> nat \<Rightarrow> Status \<Rightarrow> jsstring option \<Rightarrow> nat \<Rightarrow> error + Db" where
  "put_lesson_plan_status db planId newStatus reason now =
     (case findIndex (\<lambda>p. p_id p = planId) (lessonPlans db) of
        None \<Rightarrow> Inl LessonPlanNotFound
      | Some planIndex \<Rightarrow>
          Inr (db\<lparr>lessonPlans := (lessonPlans db)
                 [planIndex := statusUpdate (statusCurrentUser db) newStatus reason now
                                 (lessonPlans db ! planIndex)]\<rparr>))"

text \<open>
  \<open>handleLessonPlanAction\<close>, the \<open>onAction\<close> of every card: nothing without a logged-in
  user, else the request above; a failure of the request is shown as an error notice.
\<close>

definition handleLessonPlanAction ::
  "User option \<Rightarrow> Db \<Rightarrow> nat \<Rightarrow> Status \<Rightarrow> jsstring option \<Rightarrow> nat \<Rightarrow> error + Db" where
  "handleLessonPlanAction currentUser db planId newStatus reason now =
     (case currentUser of
        None \<Rightarrow> Inr db
      | Some u \<Rightarrow> put_lesson_plan_status db planId newStatus reason now)"

text \<open>Carrying out what \<open>handleConfirmAction\<close> decided, for the user of the card.\<close>

fun performEffect :: "User \<Rightarrow> Db \<Rightarrow> nat \<Rightarrow> ConfirmEffect \<Rightarrow> error + Db" where
  "performEffect currentUser db now (OnAction planId newStatus reason) =
     handleLessonPlanAction (Some currentUser) db planId newStatus reason now"
| "performEffect currentUser db now NotifyMissingReason = Inr db"
| "performEffect currentUser db now CloseModal = Inr db"

subsection \<open>POST /api/lesson-plans/:id/comments\<close>

text \<open>
  The text of the request is \<open>None\<close> when the body has no text or one that is not a
  string. The checks come in the order of the handler: the acting user (again the
  user with id 4), the text, the plan. A plan without a comment list gets one first.
\<close>

definition commentCurrentUser :: "Db \<Rightarrow> User option" where
  "commentCurrentUser db = find (\<lambda>u. u_id u = 4) (users db)"

definition pushComment :: "User \<Rightarrow> jsstring \<Rightarrow> nat \<Rightarrow> LessonPlan \<Rightarrow> LessonPlan" where
  "pushComment currentUser txt now plan =
     plan\<lparr>p_comments :=
       Some ((case p_comments plan of None \<Rightarrow> [] | Some cs \<Rightarrow> cs) @
             [\<lparr>c_id = now, c_user = currentUser, c_timestamp = now, c_text = trim txt\<rparr>])\<rparr>"

definition post_lesson_plan_comment ::
  "Db \<Rightarrow> nat \<Rightarrow> jsstring option \<Rightarrow> nat \<Rightarrow> error + Db" where
  "post_lesson_plan_comment db planId text now =
     (case commentCurrentUser db of
        None \<Rightarrow> Inl Unauthorized
      | Some currentUser \<Rightarrow>
          (case text of
             None \<Rightarrow> Inl CommentTextEmpty
           | Some txt \<Rightarrow>
               if txt = [] \<or> trim txt = [] then Inl CommentTextEmpty
               else (case findIndex (\<lambda>p. p_id p = planId) (lessonPlans db) of
                       None \<Rightarrow> Inl LessonPlanNotFound
                     | Some planIndex \<Rightarrow>
                         Inr (db\<lparr>lessonPlans := (lessonPlans db)
                                [planIndex := pushComment currentUser txt now
                                                (lessonPlans db ! planIndex)]\<rparr>))))"

subsection \<open>POST /api/lesson-plans\<close>

text \<open>
  The request carries the details as JSON text, the text \<open>isDraft\<close> and the uploaded
  file, which is the record the upload middleware hands to the handler. The details
  are spread into the new plan after \<open>id\<close> and before every other key. So every key of
  the details reaches the stored plan, \<open>id\<close> in place of the id the clock gave, except
  the keys the handler writes after the spread: \<open>submittedBy\<close>, \<open>teamId\<close>,
  \<open>submittedAt\<close>, \<open>status\<close>, \<open>file\<close>, \<open>history\<close> and \<open>comments\<close>. The record of the
  details has the keys that reach the plan (\<open>d_other\<close> for those that are not fields
  of a plan) and, of the keys that are written over, \<open>teamId\<close>.
  The submitter is the user with id 6.
\<close>

record PlanDetails =
  d_id :: "nat option"
  d_title :: "string option"
  d_subject :: "string option"
  d_grade :: "string option"
  d_class :: "string option"
  d_notes :: "string option"
  d_oneDriveFolder :: "OneDriveFolder option"
  d_finalApprover :: "User option"
  d_finalApprovedAt :: "nat option"
  d_teamId :: "nat option"
  d_schoolId :: "string option"
  d_other :: "(string \<times> string) list"

record UploadedFile =
  originalname :: string
  filename :: string

definition newPlan :: "User \<Rightarrow> PlanDetails \<Rightarrow> string \<Rightarrow> UploadedFile \<Rightarrow> nat \<Rightarrow> LessonPlan" where
  "newPlan submitter planDetails isDraft file now =
     \<lparr>p_id = (case d_id planDetails of None \<Rightarrow> now | Some i \<Rightarrow> i),
      p_title = d_title planDetails,
      p_submittedBy = submitter,
      p_submittedAt = now,
      p_status = (if isDraft = ''true'' then DRAFT else SUBMITTED),
      p_history =
        [\<lparr>h_action = (if isDraft = ''true'' then Tao_ban_nhap else Nop_Ke_hoach_bai_day),
          h_user = Some submitter, h_timestamp = now, h_reason = None\<rparr>],
      p_comments = Some [],
      p_file = \<lparr>f_name = originalname file, f_url = ''/uploads/'' @ filename file,
                f_isExternalLink = Some False\<rparr>,
      p_finalApprover = d_finalApprover planDetails,
      p_finalApprovedAt = d_finalApprovedAt planDetails,
      p_subject = d_subject planDetails,
      p_grade = d_grade planDetails,
      p_class = d_class planDetails,
      p_notes = d_notes planDetails,
      p_oneDriveFolder = d_oneDriveFolder planDetails,
      p_teamId = u_teamId submitter,
      p_schoolId = d_schoolId planDetails,
      p_other = d_other planDetails\<rparr>"

text \<open>
  The details of the request are \<open>None\<close> when they are not JSON text. \<open>JSON.parse\<close> then
  throws in the first lines of the asynchronous handler, before any check: the request
  gets no answer, and the rejected promise of the handler, which nobody handles, ends
  the process. That outcome is the result \<open>None\<close>; an answer is \<open>Some\<close>.
\<close>

definition post_lesson_plan ::
  "Db \<Rightarrow> PlanDetails option \<Rightarrow> string \<Rightarrow> UploadedFile option \<Rightarrow> nat \<Rightarrow> (error + Db) option"
  where
  "post_lesson_plan db details isDraft file now =
     (case details of
        None \<Rightarrow> None
      | Some planDetails \<Rightarrow>
          (case file of
             None \<Rightarrow> Some (Inl FileRequired)
           | Some f \<Rightarrow>
               (case find (\<lambda>u. u_id u = 6) (users db) of
                  None \<Rightarrow> Some (Inl SubmitterNotFound)
                | Some submitter \<Rightarrow>
                    Some (Inr (db\<lparr>lessonPlans := lessonPlans db @
                                  [newPlan submitter planDetails isDraft f now]\<rparr>)))))"

text \<open>
  \<open>handleSaveLessonPlan\<close> of the client, when no plan is being edited: nothing without
  a logged-in user or a selected school, else the create request, with the details of
  the upload dialog and the id of the selected school as its details and the text of
  the flag as \<open>isDraft\<close>. The request carries nothing of the logged-in user.
\<close>

record UploadDetails =
  ud_title :: string
  ud_subject :: string
  ud_grade :: string
  ud_class :: string
  ud_notes :: "string option"
  ud_oneDriveFolder :: "OneDriveFolder option"

definition fullDetails :: "UploadDetails \<Rightarrow> School \<Rightarrow> PlanDetails" where
  "fullDetails details selectedSchool =
     \<lparr>d_id = None,
      d_title = Some (ud_title details),
      d_subject = Some (ud_subject details),
      d_grade = Some (ud_grade details),
      d_class = Some (ud_class details),
      d_notes = ud_notes details,
      d_oneDriveFolder = ud_oneDriveFolder details,
      d_finalApprover = None,
      d_finalApprovedAt = None,
      d_teamId = None,
      d_schoolId = Some (s_id selectedSchool),
      d_other = []\<rparr>"

definition handleSaveLessonPlan ::
  "User option \<Rightarrow> School option \<Rightarrow> Db \<Rightarrow> UploadDetails \<Rightarrow> UploadedFile option \<Rightarrow> bool \<Rightarrow> nat
     \<Rightarrow> (error + Db) option" where
  "handleSaveLessonPlan currentUser selectedSchool db details file isDraft now =
     (case currentUser of
        None \<Rightarrow> Some (Inr db)
      | Some u \<Rightarrow>
          (case selectedSchool of
             None \<Rightarrow> Some (Inr db)
           | Some school \<Rightarrow>
               post_lesson_plan db (Some (fullDetails details school))
                 (if isDraft then ''true'' else ''false'') file now))"

subsection \<open>POST /api/teams/:id/assign-role\<close>

text \<open>
  \<open>roleType\<close> is the text of the request: \<open>leader\<close>, and anything else is the deputy.
  \<open>setRole\<close> is the pattern the handler uses twice: find the user by id, overwrite the
  role, and put the user on the list of updated users; nothing when the id is unknown.
\<close>

definition setRole :: "Role \<Rightarrow> nat \<Rightarrow> User list \<Rightarrow> User list \<times> User list" where
  "setRole r userId us =
     (case findIndex (\<lambda>u. u_id u = userId) us of
        None \<Rightarrow> (us, [])
      | Some i \<Rightarrow> (us[i := (us ! i)\<lparr>u_role := r\<rparr>], [(us ! i)\<lparr>u_role := r\<rparr>]))"

text \<open>The answer of a success is the updated team and the updated users.\<close>

definition post_team_assign_role ::
  "Db \<Rightarrow> nat \<Rightarrow> string \<Rightarrow> nat option \<Rightarrow> error + (Db \<times> Team \<times> User list)" where
  "post_team_assign_role db teamId roleType userId =
     (case findIndex (\<lambda>t. t_id t = teamId) (teams db) of
        None \<Rightarrow> Inl TeamNotFound
      | Some teamIndex \<Rightarrow>
          (let team0 = teams db ! teamIndex;
               userToDemoteId =
                 (if roleType = ''leader'' then t_leaderId team0 else t_deputyLeaderId team0);
               team =
                 (if roleType = ''leader'' then team0\<lparr>t_leaderId := truthyId userId\<rparr>
                  else team0\<lparr>t_deputyLeaderId := truthyId userId\<rparr>);
               (users1, demoted) =
                 (case truthyId userToDemoteId of
                    None \<Rightarrow> (users db, [])
                  | Some old \<Rightarrow>
                      if Some old \<noteq> userId then setRole TEACHER old (users db)
                      else (users db, []));
               (users2, promoted) =
                 (case truthyId userId of
                    None \<Rightarrow> (users1, [])
                  | Some new \<Rightarrow>
                      setRole (if roleType = ''leader'' then TEAM_LEADER
                               else DEPUTY_TEAM_LEADER) new users1)
           in Inr (db\<lparr>teams := (teams db)[teamIndex := team], users := users2\<rparr>,
                   team, demoted @ promoted)))"

section \<open>The transition table of the specification\<close>

text \<open>
  The table of section 4.1 of the specification, written from its words, to compare
  the code with. Its states are the values of \<open>Status\<close>: Draft, Submitted,
  RejectedByTeam (\<open>REJECTED_BY_TL\<close>), ApprovedByTeam (\<open>APPROVED_BY_TL\<close>),
  ApprovedByInstitution (\<open>APPROVED\<close>), RejectedByInstitution (\<open>REJECTED_BY_VP\<close>), Issued.
\<close>

datatype Transition =
    Submit | TeamApprove | TeamReject | Recall | TeamCancel
  | InstitutionApprove | InstitutionReject | InstitutionCancel | ReviseAndResubmit

fun spec_table :: "Status \<Rightarrow> Transition \<Rightarrow> Status option" where
  "spec_table DRAFT Submit = Some SUBMITTED"
| "spec_table SUBMITTED TeamApprove = Some APPROVED_BY_TL"
| "spec_table SUBMITTED TeamReject = Some REJECTED_BY_TL"
| "spec_table SUBMITTED Recall = Some DRAFT"
| "spec_table APPROVED_BY_TL TeamCancel = Some SUBMITTED"
| "spec_table APPROVED_BY_TL Recall = Some DRAFT"
| "spec_table APPROVED_BY_TL InstitutionApprove = Some APPROVED"
| "spec_table APPROVED_BY_TL InstitutionReject = Some REJECTED_BY_VP"
| "spec_table APPROVED InstitutionCancel = Some APPROVED_BY_TL"
| "spec_table REJECTED_BY_TL ReviseAndResubmit = Some SUBMITTED"
| "spec_table REJECTED_BY_VP ReviseAndResubmit = Some SUBMITTED"
| "spec_table _ _ = None"

text \<open>The transitions of the table that an action of the approval dialog stands for.\<close>

fun spec_transitions_of :: "ActionType \<Rightarrow> Transition list" where
  "spec_transitions_of approve = [TeamApprove, InstitutionApprove]"
| "spec_transitions_of reject = [TeamReject, InstitutionReject]"
| "spec_transitions_of cancel = [TeamCancel, InstitutionCancel]"

section \<open>The sample data of the server\<close>

text \<open>
  Part of \<open>MOCK_DATA\<close>, the data set the server starts from: the users with the ids
  2 to 7, 9 and 10 of \<open>MOCK_USERS_DATA\<close>, the two schools, team 1, and the lesson plans 1, 3
  and 5 (names without their diacritics). The clock of the sample is \<open>mockNow\<close>.
\<close>

definition mockNow :: nat where
  "mockNow = 1700000000000"

definition day :: nat where
  "day = 24 * 60 * 60 * 1000"

definition mockUser :: "nat \<Rightarrow> string \<Rightarrow> Role \<Rightarrow> nat option \<Rightarrow> string \<Rightarrow> User" where
  "mockUser i n r t s =
     \<lparr>u_id = i, u_name = n, u_role = r, u_teamId = t, u_schoolId = Some s\<rparr>"

definition user2 :: User where
  "user2 = mockUser 2 ''Nguyen Van An'' PRINCIPAL None ''THCS-BINHSON''"

definition user3 :: User where
  "user3 = mockUser 3 ''Tran Thi Bich'' VICE_PRINCIPAL None ''THCS-BINHSON''"

definition user4 :: User where
  "user4 = mockUser 4 ''Le Minh Cuong'' TEAM_LEADER (Some 1) ''THCS-BINHSON''"

definition user5 :: User where
  "user5 = mockUser 5 ''Pham Thi Dung'' DEPUTY_TEAM_LEADER (Some 1) ''THCS-BINHSON''"

definition user6 :: User where
  "user6 = mockUser 6 ''Hoang Van Em'' TEACHER (Some 1) ''THCS-BINHSON''"

definition user7 :: User where
  "user7 = mockUser 7 ''Vu Thi Gam'' TEACHER (Some 1) ''THCS-BINHSON''"

definition user9 :: User where
  "user9 = mockUser 9 ''Nguyen Thi Lan'' TEACHER (Some 2) ''THCS-BINHSON''"

definition user10 :: User where
  "user10 = mockUser 10 ''Phan Huy Ich'' PRINCIPAL None ''THPT-SONTINH''"

definition school1 :: School where
  "school1 = \<lparr>s_id = ''THCS-BINHSON'', s_name = ''Truong THCS Binh Son''\<rparr>"

definition school2 :: School where
  "school2 = \<lparr>s_id = ''THPT-SONTINH'', s_name = ''Truong THPT Son Tinh''\<rparr>"

definition team1 :: Team where
  "team1 = \<lparr>t_id = 1, t_name = ''To Khoa hoc Tu nhien'', t_leaderId = Some 4,
            t_deputyLeaderId = Some 5, t_schoolId = Some ''THCS-BINHSON''\<rparr>"

definition mockFile :: "string \<Rightarrow> FileRef" where
  "mockFile n = \<lparr>f_name = n, f_url = ''/uploads/mock-file.pdf'', f_isExternalLink = None\<rparr>"

definition mockEntry :: "HistoryAction \<Rightarrow> User \<Rightarrow> nat \<Rightarrow> HistoryEntry" where
  "mockEntry a u t = \<lparr>h_action = a, h_user = Some u, h_timestamp = t, h_reason = None\<rparr>"

definition plan1 :: LessonPlan where
  "plan1 =
     \<lparr>p_id = 1, p_title = Some ''Bai day: Phan ung Oxi hoa - Khu'', p_submittedBy = user6,
      p_submittedAt = mockNow - 1 * day, p_status = SUBMITTED,
      p_history = [mockEntry Nop_Ke_hoach_bai_day user6 (mockNow - 1 * day)],
      p_comments = Some [], p_file = mockFile ''KHTN8_Oxihoa.pdf'',
      p_finalApprover = None, p_finalApprovedAt = None,
      p_subject = Some ''Khoa hoc tu nhien'', p_grade = Some ''Khoi 8'',
      p_class = Some ''8A'', p_notes = None, p_oneDriveFolder = None,
      p_teamId = Some 1, p_schoolId = Some ''THCS-BINHSON'', p_other = []\<rparr>"

definition plan3 :: LessonPlan where
  "plan3 =
     \<lparr>p_id = 3, p_title = Some ''Bai day: Thi Hien tai Hoan thanh'', p_submittedBy = user7,
      p_submittedAt = mockNow - 3 * day, p_status = APPROVED_BY_TL,
      p_history = [mockEntry Nop_Ke_hoach_bai_day user7 (mockNow - 3 * day),
                   mockEntry To_truong_da_duyet user4 (mockNow - 2 * day)],
      p_comments = Some [], p_file = mockFile ''English7_PresentPerfect.pdf'',
      p_finalApprover = None, p_finalApprovedAt = None,
      p_subject = Some ''Ngoai ngu 1 (Tieng Anh)'', p_grade = Some ''Khoi 7'',
      p_class = Some ''7B'', p_notes = None, p_oneDriveFolder = None,
      p_teamId = Some 1, p_schoolId = Some ''THCS-BINHSON'', p_other = []\<rparr>"

definition plan5 :: LessonPlan where
  "plan5 =
     \<lparr>p_id = 5, p_title = Some ''Soan bai: Lap trinh Scratch co ban'', p_submittedBy = user7,
      p_submittedAt = mockNow, p_status = DRAFT,
      p_history = [mockEntry Tao_ban_nhap user7 mockNow],
      p_comments = Some [], p_file = mockFile ''TinHoc6_Scratch.pdf'',
      p_finalApprover = None, p_finalApprovedAt = None,
      p_subject = Some ''Tin hoc'', p_grade = Some ''Khoi 6'',
      p_class = Some ''6A'', p_notes = None, p_oneDriveFolder = None,
      p_teamId = Some 1, p_schoolId = Some ''THCS-BINHSON'', p_other = []\<rparr>"

definition mockDelegation :: DelegationState where
  "mockDelegation =
     \<lparr>principalToVp = False, teamDelegation = [1 \<mapsto> False, 2 \<mapsto> False, 3 \<mapsto> False]\<rparr>"

definition mockDb :: Db where
  "mockDb =
     \<lparr>schools = [school1, school2],
      users = [user2, user3, user4, user5, user6, user7, user9, user10],
      teams = [team1],
      lessonPlans = [plan1, plan3, plan5],
      delegation = mockDelegation\<rparr>"

lemmas mock_defs =
  mockDb_def mockDelegation_def plan1_def plan3_def plan5_def mockEntry_def mockFile_def
  team1_def school1_def school2_def user2_def user3_def user4_def user5_def user6_def
  user7_def user9_def user10_def mockUser_def

section \<open>Facts about the built-ins\<close>

lemma findIndex_Some:
  "findIndex P xs = Some i \<Longrightarrow> i < length xs \<and> P (xs ! i)"
proof (induction xs arbitrary: i)
  case Nil
  then show ?case by simp
next
  case (Cons x xs)
  show ?case
  proof (cases "P x")
    case True
    with Cons.prems show ?thesis by simp
  next
    case False
    with Cons.prems obtain j where "findIndex P xs = Some j" and "i = Suc j"
      by auto
    with Cons.IH show ?thesis by simp
  qed
qed

lemma findIndex_None: "findIndex P xs = None \<longleftrightarrow> (\<forall>x \<in> set xs. \<not> P x)"
  by (induction xs) auto

lemma trim_blank: "(\<forall>c \<in> set s. isWhiteSpace c) \<Longrightarrow> trim s = []"
  by (auto simp: trim_def dropWhile_eq_Nil_conv dest: set_dropWhileD)

lemma trim_blank_iff: "trim s = [] \<longleftrightarrow> (\<forall>c \<in> set s. isWhiteSpace c)"
proof
  assume "trim s = []"
  then have "dropWhile isWhiteSpace (rev (dropWhile isWhiteSpace s)) = []"
    by (simp add: trim_def)
  then have "\<forall>c \<in> set (dropWhile isWhiteSpace s). isWhiteSpace c"
    by (simp add: dropWhile_eq_Nil_conv)
  then have "dropWhile isWhiteSpace s = []"
    by (metis hd_dropWhile hd_in_set)
  then show "\<forall>c \<in> set s. isWhiteSpace c"
    by (simp add: dropWhile_eq_Nil_conv)
qed (rule trim_blank)

lemma trim_split:
  "s = takeWhile isWhiteSpace s @ trim s @
       rev (takeWhile isWhiteSpace (rev (dropWhile isWhiteSpace s)))"
proof -
  let ?t = "dropWhile isWhiteSpace s"
  have "trim s @ rev (takeWhile isWhiteSpace (rev ?t)) =
          rev (takeWhile isWhiteSpace (rev ?t) @ dropWhile isWhiteSpace (rev ?t))"
    by (simp only: trim_def rev_append)
  also have "\<dots> = rev (rev ?t)"
    by (simp only: takeWhile_dropWhile_id)
  finally have "?t = trim s @ rev (takeWhile isWhiteSpace (rev ?t))"
    by simp
  moreover have "s = takeWhile isWhiteSpace s @ ?t"
    by simp
  ultimately show ?thesis by metis
qed

lemma trim_ends:
  assumes "trim s \<noteq> []"
  shows "\<not> isWhiteSpace (hd (trim s)) \<and> \<not> isWhiteSpace (last (trim s))"
proof -
  let ?t = "dropWhile isWhiteSpace s"
  let ?r = "dropWhile isWhiteSpace (rev ?t)"
  from assms have r: "?r \<noteq> []" by (simp add: trim_def)
  have t: "?t \<noteq> []"
  proof
    assume "?t = []"
    then have "?r = []" by (simp only: rev.simps dropWhile.simps)
    with r show False by contradiction
  qed
  have "last (trim s) = hd ?r" using r by (simp add: trim_def last_rev)
  moreover have "\<not> isWhiteSpace (hd ?r)" using r by (rule hd_dropWhile)
  moreover have "hd (trim s) = last ?r" using r by (simp add: trim_def hd_rev)
  moreover have "last ?r = last (rev ?t)"
    using r by (metis takeWhile_dropWhile_id last_appendR)
  moreover have "last (rev ?t) = hd ?t" using t by (simp add: last_rev)
  moreover have "\<not> isWhiteSpace (hd ?t)" using t by (rule hd_dropWhile)
  ultimately show ?thesis by simp
qed

lemma teamFlag_iff:
  "teamFlag d tid \<longleftrightarrow> (\<exists>t. tid = Some t \<and> teamDelegation d t = Some True)"
  by (cases tid) simp_all

lemma toggle_team_flag:
  "t \<noteq> 0 \<Longrightarrow>
   teamFlag (handleDelegationChange d team (Some t)) (Some t) = (\<not> teamFlag d (Some t))"
  by (simp add: handleDelegationChange_def)

section \<open>Authorisation of the team tier\<close>

text \<open>
  Claim C3. The approval actions of the team tier are approving and rejecting a
  submitted plan and cancelling the approval of a plan the team has approved. The card
  offers them exactly when the current user is the leader of the plan's team, or the
  deputy leader of the plan's team while the delegation flag of that team is set.
  So a deputy of the team is refused while the flag is not set, and allowed once the
  switch of the administration dialog has set it.
\<close>

theorem team_tier_guard:
  fixes currentUser :: User and plan :: LessonPlan and d :: DelegationState
  defines "allowed \<equiv>
     (u_role currentUser = TEAM_LEADER \<and> u_teamId currentUser = p_teamId plan) \<or>
     (u_role currentUser = DEPUTY_TEAM_LEADER \<and> u_teamId currentUser = p_teamId plan \<and>
      (\<exists>t. p_teamId plan = Some t \<and> teamDelegation d t = Some True))"
  shows
    "(canApproveTeam currentUser plan d \<longleftrightarrow> allowed) \<and>
     (p_status plan = SUBMITTED \<longrightarrow>
        (approve \<in> set (renderApprovalActions currentUser plan d) \<longleftrightarrow> allowed) \<and>
        (reject \<in> set (renderApprovalActions currentUser plan d) \<longleftrightarrow> allowed)) \<and>
     (p_status plan = APPROVED_BY_TL \<longrightarrow>
        (cancel \<in> set (renderApprovalActions currentUser plan d) \<longleftrightarrow> allowed)) \<and>
     (u_role currentUser = DEPUTY_TEAM_LEADER \<and> u_teamId currentUser = p_teamId plan \<and>
      p_teamId plan = Some t \<and> t \<noteq> 0 \<and> teamDelegation d t \<noteq> Some True \<longrightarrow>
        \<not> canApproveTeam currentUser plan d \<and>
        canApproveTeam currentUser plan (handleDelegationChange d team (Some t)))"
proof -
  have g: "canApproveTeam currentUser plan d \<longleftrightarrow> allowed"
    unfolding allowed_def canApproveTeam_def teamFlag_iff ..
  have s: "p_status plan = SUBMITTED \<longrightarrow>
        (approve \<in> set (renderApprovalActions currentUser plan d) \<longleftrightarrow> allowed) \<and>
        (reject \<in> set (renderApprovalActions currentUser plan d) \<longleftrightarrow> allowed)"
    unfolding g [symmetric]
    by (auto simp: renderApprovalActions_def canApproveTeam_def)
  have c: "p_status plan = APPROVED_BY_TL \<longrightarrow>
        (cancel \<in> set (renderApprovalActions currentUser plan d) \<longleftrightarrow> allowed)"
    unfolding g [symmetric]
    by (auto simp: renderApprovalActions_def canApproveTeam_def canApprovePrincipal_def)
  have p: "u_role currentUser = DEPUTY_TEAM_LEADER \<and> u_teamId currentUser = p_teamId plan \<and>
      p_teamId plan = Some t \<and> t \<noteq> 0 \<and> teamDelegation d t \<noteq> Some True \<longrightarrow>
        \<not> canApproveTeam currentUser plan d \<and>
        canApproveTeam currentUser plan (handleDelegationChange d team (Some t))"
    by (auto simp: canApproveTeam_def handleDelegationChange_def)
  from g s c p show ?thesis by blast
qed

theorem team_tier_guard_witness:
  "\<not> canApproveTeam user5 plan1 mockDelegation \<and>
   canApproveTeam user5 plan1 (handleDelegationChange mockDelegation team (Some 1)) \<and>
   approve \<in> set (renderApprovalActions user4 plan1 mockDelegation) \<and>
   reject \<in> set (renderApprovalActions user4 plan1 mockDelegation) \<and>
   cancel \<in> set (renderApprovalActions user4 plan3 mockDelegation) \<and>
   approve \<notin> set (renderApprovalActions user5 plan1 mockDelegation) \<and>
   cancel \<notin> set (renderApprovalActions user2 plan3 mockDelegation)"
  using team_tier_guard [of user5 plan1 mockDelegation 1]
    team_tier_guard [of user4 plan1 mockDelegation 1]
    team_tier_guard [of user4 plan3 mockDelegation 1]
    team_tier_guard [of user2 plan3 mockDelegation 1]
  by (simp add: mock_defs)

text \<open>
  Claim C6. For a team leader the guard does not look at the delegation flags: the
  verdict on the team's actions and the buttons of the card are the same under any two
  delegation states, and the leader of the plan's team is always allowed.
\<close>

theorem leader_keeps_authority:
  "u_role currentUser = TEAM_LEADER \<Longrightarrow>
     canApproveTeam currentUser plan d = canApproveTeam currentUser plan d' \<and>
     renderApprovalActions currentUser plan d = renderApprovalActions currentUser plan d' \<and>
     (u_teamId currentUser = p_teamId plan \<longrightarrow> canApproveTeam currentUser plan d)"
  by (simp add: canApproveTeam_def canApprovePrincipal_def renderApprovalActions_def)

theorem leader_keeps_authority_witness:
  "u_role user4 = TEAM_LEADER \<and>
   canApproveTeam user4 plan1 (handleDelegationChange mockDelegation team (Some 1)) \<and>
   canApproveTeam user4 plan1 mockDelegation \<and>
   renderApprovalActions user4 plan1 (handleDelegationChange mockDelegation team (Some 1)) =
     [approve, reject]"
proof -
  have r: "u_role user4 = TEAM_LEADER" by (simp add: mock_defs)
  have a: "renderApprovalActions user4 plan1 mockDelegation = [approve, reject]"
    by (simp add: renderApprovalActions_def canApproveTeam_def mock_defs)
  have t: "u_teamId user4 = p_teamId plan1" by (simp add: mock_defs)
  note k = leader_keeps_authority
    [OF r, of plan1 "handleDelegationChange mockDelegation team (Some 1)" mockDelegation]
  from k t have 1: "canApproveTeam user4 plan1 (handleDelegationChange mockDelegation team (Some 1))"
    by blast
  with k have 2: "canApproveTeam user4 plan1 mockDelegation"
    by blast
  from k a have 3: "renderApprovalActions user4 plan1
      (handleDelegationChange mockDelegation team (Some 1)) = [approve, reject]"
    by simp
  from r 1 2 3 show ?thesis by blast
qed

section \<open>Visibility\<close>

text \<open>
  Claim C7. Within the selected school a principal sees every plan, and a team leader
  sees the plans of the leader's team: the leader's plans are among the principal's.
\<close>

theorem principal_sees_more:
  "u_role headUser = PRINCIPAL \<Longrightarrow> u_role leader = TEAM_LEADER \<Longrightarrow>
     set (baseVisiblePlans leader (dashboardLessonPlans leader selectedSchool plans))
       \<subseteq> set (baseVisiblePlans headUser (dashboardLessonPlans headUser selectedSchool plans)) \<and>
     baseVisiblePlans headUser (dashboardLessonPlans headUser selectedSchool plans) =
       schoolLessonPlans selectedSchool plans \<and>
     set (baseVisiblePlans leader (dashboardLessonPlans leader selectedSchool plans)) =
       {p \<in> set (schoolLessonPlans selectedSchool plans). p_teamId p = u_teamId leader}"
  by (auto simp: baseVisiblePlans_def dashboardLessonPlans_def)

theorem principal_sees_more_witness:
  "baseVisiblePlans user2 (dashboardLessonPlans user2 (Some school1) (lessonPlans mockDb)) =
     [plan1, plan3, plan5] \<and>
   set (baseVisiblePlans user4 (dashboardLessonPlans user4 (Some school1) (lessonPlans mockDb)))
     \<subseteq> set (baseVisiblePlans user2 (dashboardLessonPlans user2 (Some school1) (lessonPlans mockDb)))"
proof -
  have p: "u_role user2 = PRINCIPAL" and l: "u_role user4 = TEAM_LEADER"
    by (simp_all add: mock_defs)
  have s: "schoolLessonPlans (Some school1) (lessonPlans mockDb) = [plan1, plan3, plan5]"
    by (simp add: schoolLessonPlans_def mock_defs)
  from principal_sees_more [OF p l, of "Some school1" "lessonPlans mockDb"] s
  show ?thesis by auto
qed


section \<open>The status endpoint\<close>

lemma status_found:
  "findIndex (\<lambda>p. p_id p = planId) (lessonPlans db) = Some i \<Longrightarrow>
   put_lesson_plan_status db planId newStatus reason now =
     Inr (db\<lparr>lessonPlans := (lessonPlans db)
            [i := statusUpdate (statusCurrentUser db) newStatus reason now (lessonPlans db ! i)]\<rparr>)"
  by (simp add: put_lesson_plan_status_def)

text \<open>
  Claim C8 says that the approver recorded on reaching \<open>ISSUED\<close> is the invoking actor.
  The request of the client carries no actor. When the principal, user 2, asks for
  \<open>ISSUED\<close> on plan 3, the approver recorded is user 4; on a data set without user 4
  the request succeeds as well and records no approver.
\<close>

theorem final_approver_not_caller_counterexample:
  "u_id user2 = 2 \<and> u_id user4 = 4 \<and>
   \<not> isl (handleLessonPlanAction (Some user2) mockDb 3 ISSUED None mockNow) \<and>
   p_finalApprover
     (lessonPlans (projr (handleLessonPlanAction (Some user2) mockDb 3 ISSUED None mockNow)) ! 1)
     = Some user4 \<and>
   \<not> isl (handleLessonPlanAction (Some user2) (mockDb\<lparr>users := [user2]\<rparr>) 3 ISSUED None mockNow) \<and>
   p_finalApprover
     (lessonPlans (projr (handleLessonPlanAction (Some user2) (mockDb\<lparr>users := [user2]\<rparr>)
        3 ISSUED None mockNow)) ! 1)
     = None"
  by (simp add: handleLessonPlanAction_def put_lesson_plan_status_def statusUpdate_def
      statusCurrentUser_def mock_defs)

text \<open>
  Claim C8, amended. A status request for a stored plan succeeds, whoever the logged-in
  user of the client is. When the new status is \<open>ISSUED\<close> the plan's final approver
  becomes the user with id 4 of the data set, or nothing when there is none: the user
  the handler takes for the acting one and puts on the appended history entry. The
  time of the final approval becomes the time of the request. For every other new
  status both fields stay as they were.
\<close>

theorem final_approver_on_issue:
  assumes "findIndex (\<lambda>p. p_id p = planId) (lessonPlans db) = Some i"
  shows "\<exists>db'. put_lesson_plan_status db planId newStatus reason now = Inr db' \<and>
      handleLessonPlanAction (Some actor) db planId newStatus reason now = Inr db' \<and>
      p_status (lessonPlans db' ! i) = newStatus \<and>
      (newStatus = ISSUED \<longrightarrow>
         p_finalApprover (lessonPlans db' ! i) = find (\<lambda>u. u_id u = 4) (users db) \<and>
         p_finalApprover (lessonPlans db' ! i) = h_user (last (p_history (lessonPlans db' ! i))) \<and>
         p_finalApprovedAt (lessonPlans db' ! i) = Some now) \<and>
      (newStatus \<noteq> ISSUED \<longrightarrow>
         p_finalApprover (lessonPlans db' ! i) = p_finalApprover (lessonPlans db ! i) \<and>
         p_finalApprovedAt (lessonPlans db' ! i) = p_finalApprovedAt (lessonPlans db ! i))"
proof -
  from assms have len: "i < length (lessonPlans db)"
    by (simp add: findIndex_Some)
  then show ?thesis
    by (simp add: handleLessonPlanAction_def status_found [OF assms] statusUpdate_def
        statusCurrentUser_def Let_def)
qed

theorem final_approver_on_issue_witness:
  "findIndex (\<lambda>p. p_id p = 3) (lessonPlans mockDb) = Some 1 \<and>
   p_finalApprover
     (lessonPlans (projr (handleLessonPlanAction (Some user2) mockDb 3 ISSUED None mockNow)) ! 1)
     = Some user4 \<and>
   p_finalApprovedAt
     (lessonPlans (projr (handleLessonPlanAction (Some user2) mockDb 3 ISSUED None mockNow)) ! 1)
     = Some mockNow \<and>
   p_finalApprover
     (lessonPlans (projr (handleLessonPlanAction (Some user2) mockDb 3 APPROVED None mockNow)) ! 1)
     = None \<and>
   p_finalApprovedAt
     (lessonPlans (projr (handleLessonPlanAction (Some user2) mockDb 3 APPROVED None mockNow)) ! 1)
     = None"
proof -
  have f: "findIndex (\<lambda>p. p_id p = 3) (lessonPlans mockDb) = Some 1"
    by (simp add: mock_defs)
  have u: "find (\<lambda>u. u_id u = 4) (users mockDb) = Some user4"
    by (simp add: mock_defs)
  have o: "p_finalApprover (lessonPlans mockDb ! 1) = None"
    "p_finalApprovedAt (lessonPlans mockDb ! 1) = None"
    by (simp_all add: mock_defs)
  from final_approver_on_issue [OF f, of ISSUED None mockNow user2]
    final_approver_on_issue [OF f, of APPROVED None mockNow user2] f u o
  show ?thesis by auto
qed

section \<open>Creating a plan\<close>

text \<open>
  Claim C10 says that a created plan gets the team of the user who submits it. The
  create request carries no user. User 9 is a teacher of team 2; the plan that user 9
  uploads is stored as submitted by user 6 and with team 1, the team of user 6.
\<close>

theorem created_plan_not_uploaders_team_counterexample:
  "u_id user9 = 9 \<and> u_teamId user9 = Some 2 \<and> u_id user6 = 6 \<and>
   p_submittedBy (last (lessonPlans (projr (the
     (handleSaveLessonPlan (Some user9) (Some school1) mockDb
        \<lparr>ud_title = ''T'', ud_subject = ''S'', ud_grade = ''G'', ud_class = ''C'',
         ud_notes = None, ud_oneDriveFolder = None\<rparr>
        (Some \<lparr>originalname = ''a.pdf'', filename = ''1-a.pdf''\<rparr>) False mockNow))))) = user6 \<and>
   p_teamId (last (lessonPlans (projr (the
     (handleSaveLessonPlan (Some user9) (Some school1) mockDb
        \<lparr>ud_title = ''T'', ud_subject = ''S'', ud_grade = ''G'', ud_class = ''C'',
         ud_notes = None, ud_oneDriveFolder = None\<rparr>
        (Some \<lparr>originalname = ''a.pdf'', filename = ''1-a.pdf''\<rparr>) False mockNow))))) = Some 1"
  by (simp add: handleSaveLessonPlan_def post_lesson_plan_def newPlan_def mock_defs)

text \<open>
  Claim C10, amended. A create request with details and a file, on a data set that has
  the user with id 6, is answered with success and appends one plan, and so does an
  upload from the client whoever its logged-in user is. The plan's \<open>submittedBy\<close> is
  the user with id 6, and its team is the team of that user, whatever team the details
  name.
\<close>

theorem created_plan_team:
  assumes "find (\<lambda>u. u_id u = 6) (users db) = Some submitter"
  shows "post_lesson_plan db (Some details) isDraft (Some file) now =
           Some (Inr (db\<lparr>lessonPlans :=
                  lessonPlans db @ [newPlan submitter details isDraft file now]\<rparr>)) \<and>
         handleSaveLessonPlan (Some uploader) (Some school) db upload (Some file) draft now =
           Some (Inr (db\<lparr>lessonPlans :=
                  lessonPlans db @
                  [newPlan submitter (fullDetails upload school)
                     (if draft then ''true'' else ''false'') file now]\<rparr>)) \<and>
         p_submittedBy (newPlan submitter details isDraft file now) = submitter \<and>
         p_teamId (newPlan submitter details isDraft file now) = u_teamId submitter"
  using assms by (simp add: handleSaveLessonPlan_def post_lesson_plan_def newPlan_def)

theorem created_plan_team_witness:
  "find (\<lambda>u. u_id u = 6) (users mockDb) = Some user6 \<and>
   p_teamId (last (lessonPlans (projr (the (post_lesson_plan mockDb
       (Some \<lparr>d_id = None, d_title = Some ''T'', d_subject = None, d_grade = None,
              d_class = None, d_notes = None, d_oneDriveFolder = None,
              d_finalApprover = None, d_finalApprovedAt = None, d_teamId = Some 99,
              d_schoolId = Some ''THCS-BINHSON'', d_other = []\<rparr>)
       ''false'' (Some \<lparr>originalname = ''a.pdf'', filename = ''1-a.pdf''\<rparr>) mockNow))))) = Some 1"
proof -
  have f: "find (\<lambda>u. u_id u = 6) (users mockDb) = Some user6"
    by (simp add: mock_defs)
  have t: "u_teamId user6 = Some 1" by (simp add: mock_defs)
  from created_plan_team [OF f, of
       "\<lparr>d_id = None, d_title = Some ''T'', d_subject = None, d_grade = None,
              d_class = None, d_notes = None, d_oneDriveFolder = None,
              d_finalApprover = None, d_finalApprovedAt = None, d_teamId = Some 99,
              d_schoolId = Some ''THCS-BINHSON'', d_other = []\<rparr>"
       "''false''" "\<lparr>originalname = ''a.pdf'', filename = ''1-a.pdf''\<rparr>" mockNow] f t
  show ?thesis by auto
qed

section \<open>Comments\<close>

text \<open>
  Claim C9. A comment whose text is white space only is refused and nothing is stored;
  the refusal is the one for an empty comment whenever the handler has its acting user.
  A comment that is accepted is appended to the comments of the plan with the trimmed
  text: the submitted text without the white space before its first and after its last
  character that is not white space.
\<close>

theorem comment_trimmed:
  "((\<forall>c \<in> set txt. isWhiteSpace c) \<longrightarrow>
      isl (post_lesson_plan_comment db planId (Some txt) now) \<and>
      (commentCurrentUser db \<noteq> None \<longrightarrow>
         post_lesson_plan_comment db planId (Some txt) now = Inl CommentTextEmpty)) \<and>
   (post_lesson_plan_comment db planId (Some txt) now = Inr db' \<longrightarrow>
      (\<exists>i currentUser. findIndex (\<lambda>p. p_id p = planId) (lessonPlans db) = Some i \<and>
         commentCurrentUser db = Some currentUser \<and>
         p_comments (lessonPlans db' ! i) =
           Some ((case p_comments (lessonPlans db ! i) of None \<Rightarrow> [] | Some cs \<Rightarrow> cs) @
                 [\<lparr>c_id = now, c_user = currentUser, c_timestamp = now, c_text = trim txt\<rparr>])) \<and>
      trim txt \<noteq> [] \<and>
      \<not> isWhiteSpace (hd (trim txt)) \<and> \<not> isWhiteSpace (last (trim txt)) \<and>
      (\<exists>before after. txt = before @ trim txt @ after \<and>
         (\<forall>c \<in> set before. isWhiteSpace c) \<and> (\<forall>c \<in> set after. isWhiteSpace c)))"
proof -
  have blank: "(\<forall>c \<in> set txt. isWhiteSpace c) \<longrightarrow>
      isl (post_lesson_plan_comment db planId (Some txt) now) \<and>
      (commentCurrentUser db \<noteq> None \<longrightarrow>
         post_lesson_plan_comment db planId (Some txt) now = Inl CommentTextEmpty)"
    by (auto simp: post_lesson_plan_comment_def trim_blank split: option.splits)
  have stored: "\<exists>i currentUser. findIndex (\<lambda>p. p_id p = planId) (lessonPlans db) = Some i \<and>
         commentCurrentUser db = Some currentUser \<and>
         p_comments (lessonPlans db' ! i) =
           Some ((case p_comments (lessonPlans db ! i) of None \<Rightarrow> [] | Some cs \<Rightarrow> cs) @
                 [\<lparr>c_id = now, c_user = currentUser, c_timestamp = now, c_text = trim txt\<rparr>])"
    and nonblank: "trim txt \<noteq> []"
    if ok: "post_lesson_plan_comment db planId (Some txt) now = Inr db'"
  proof -
    from ok obtain cu where cu: "commentCurrentUser db = Some cu"
      by (auto simp: post_lesson_plan_comment_def split: option.splits)
    from ok cu show "trim txt \<noteq> []"
      by (auto simp: post_lesson_plan_comment_def split: if_splits)
    with ok cu obtain i where i: "findIndex (\<lambda>p. p_id p = planId) (lessonPlans db) = Some i"
      by (auto simp: post_lesson_plan_comment_def split: option.splits if_splits)
    then have "i < length (lessonPlans db)" by (simp add: findIndex_Some)
    with ok cu i \<open>trim txt \<noteq> []\<close>
    have "p_comments (lessonPlans db' ! i) =
           Some ((case p_comments (lessonPlans db ! i) of None \<Rightarrow> [] | Some cs \<Rightarrow> cs) @
                 [\<lparr>c_id = now, c_user = cu, c_timestamp = now, c_text = trim txt\<rparr>])"
      by (auto simp: post_lesson_plan_comment_def pushComment_def split: if_splits)
    with i cu show "\<exists>i currentUser. findIndex (\<lambda>p. p_id p = planId) (lessonPlans db) = Some i \<and>
         commentCurrentUser db = Some currentUser \<and>
         p_comments (lessonPlans db' ! i) =
           Some ((case p_comments (lessonPlans db ! i) of None \<Rightarrow> [] | Some cs \<Rightarrow> cs) @
                 [\<lparr>c_id = now, c_user = currentUser, c_timestamp = now, c_text = trim txt\<rparr>])"
      by blast
  qed
  have parts: "\<exists>before after. txt = before @ trim txt @ after \<and>
         (\<forall>c \<in> set before. isWhiteSpace c) \<and> (\<forall>c \<in> set after. isWhiteSpace c)"
  proof (intro exI conjI)
    show "txt = takeWhile isWhiteSpace txt @ trim txt @
       rev (takeWhile isWhiteSpace (rev (dropWhile isWhiteSpace txt)))"
      by (rule trim_split)
    show "\<forall>c \<in> set (takeWhile isWhiteSpace txt). isWhiteSpace c"
      by (auto dest: set_takeWhileD)
    show "\<forall>c \<in> set (rev (takeWhile isWhiteSpace (rev (dropWhile isWhiteSpace txt)))). isWhiteSpace c"
      by (auto dest: set_takeWhileD)
  qed
  have ends: "trim txt \<noteq> [] \<longrightarrow>
      \<not> isWhiteSpace (hd (trim txt)) \<and> \<not> isWhiteSpace (last (trim txt))"
    by (simp add: trim_ends)
  show ?thesis
  proof (rule conjI)
    show "(\<forall>c \<in> set txt. isWhiteSpace c) \<longrightarrow>
      isl (post_lesson_plan_comment db planId (Some txt) now) \<and>
      (commentCurrentUser db \<noteq> None \<longrightarrow>
         post_lesson_plan_comment db planId (Some txt) now = Inl CommentTextEmpty)"
      by (rule blank)
  next
    show "post_lesson_plan_comment db planId (Some txt) now = Inr db' \<longrightarrow>
      (\<exists>i currentUser. findIndex (\<lambda>p. p_id p = planId) (lessonPlans db) = Some i \<and>
         commentCurrentUser db = Some currentUser \<and>
         p_comments (lessonPlans db' ! i) =
           Some ((case p_comments (lessonPlans db ! i) of None \<Rightarrow> [] | Some cs \<Rightarrow> cs) @
                 [\<lparr>c_id = now, c_user = currentUser, c_timestamp = now, c_text = trim txt\<rparr>])) \<and>
      trim txt \<noteq> [] \<and>
      \<not> isWhiteSpace (hd (trim txt)) \<and> \<not> isWhiteSpace (last (trim txt)) \<and>
      (\<exists>before after. txt = before @ trim txt @ after \<and>
         (\<forall>c \<in> set before. isWhiteSpace c) \<and> (\<forall>c \<in> set after. isWhiteSpace c))"
    proof (rule impI)
      assume ok: "post_lesson_plan_comment db planId (Some txt) now = Inr db'"
      note n = nonblank [OF ok]
      from n ends have e: "\<not> isWhiteSpace (hd (trim txt)) \<and> \<not> isWhiteSpace (last (trim txt))"
        by (rule rev_mp)
      from e have e1: "\<not> isWhiteSpace (hd (trim txt))" and e2: "\<not> isWhiteSpace (last (trim txt))"
        by (rule conjunct1, rule conjunct2)
      show "(\<exists>i currentUser. findIndex (\<lambda>p. p_id p = planId) (lessonPlans db) = Some i \<and>
         commentCurrentUser db = Some currentUser \<and>
         p_comments (lessonPlans db' ! i) =
           Some ((case p_comments (lessonPlans db ! i) of None \<Rightarrow> [] | Some cs \<Rightarrow> cs) @
                 [\<lparr>c_id = now, c_user = currentUser, c_timestamp = now, c_text = trim txt\<rparr>])) \<and>
      trim txt \<noteq> [] \<and>
      \<not> isWhiteSpace (hd (trim txt)) \<and> \<not> isWhiteSpace (last (trim txt)) \<and>
      (\<exists>before after. txt = before @ trim txt @ after \<and>
         (\<forall>c \<in> set before. isWhiteSpace c) \<and> (\<forall>c \<in> set after. isWhiteSpace c))"
        by (intro conjI) (rule stored [OF ok] n e1 e2 parts)+
    qed
  qed
qed

theorem comment_trimmed_witness:
  "post_lesson_plan_comment mockDb 1 (Some [32, 9, 10]) mockNow = Inl CommentTextEmpty \<and>
   map c_text (the (p_comments (lessonPlans (projr
     (post_lesson_plan_comment mockDb 1 (Some [32, 79, 32, 75, 10]) mockNow)) ! 0))) =
     [[79, 32, 75]]"
proof -
  have u: "commentCurrentUser mockDb \<noteq> None"
    by (simp add: commentCurrentUser_def mock_defs)
  have b: "\<forall>c \<in> set [32, 9, 10]. isWhiteSpace c"
    by (simp add: isWhiteSpace_def)
  have t: "trim [32, 79, 32, 75, 10] = [79, 32, 75]"
    by (simp add: trim_def isWhiteSpace_def)
  have r: "post_lesson_plan_comment mockDb 1 (Some [32, 79, 32, 75, 10]) mockNow =
    Inr (projr (post_lesson_plan_comment mockDb 1 (Some [32, 79, 32, 75, 10]) mockNow))"
    by (simp add: post_lesson_plan_comment_def commentCurrentUser_def t mock_defs)
  have f: "findIndex (\<lambda>p. p_id p = 1) (lessonPlans mockDb) = Some 0"
    by (simp add: mock_defs)
  have o: "p_comments (lessonPlans mockDb ! 0) = Some []"
    by (simp add: mock_defs)
  note k1 = comment_trimmed [of "[32, 9, 10]" mockDb 1 mockNow, THEN conjunct1]
  note k2 = comment_trimmed [of "[32, 79, 32, 75, 10]" mockDb 1 mockNow
      "projr (post_lesson_plan_comment mockDb 1 (Some [32, 79, 32, 75, 10]) mockNow)",
      THEN conjunct2, THEN mp, OF r, THEN conjunct1]
  from k1 b u have 1: "post_lesson_plan_comment mockDb 1 (Some [32, 9, 10]) mockNow =
      Inl CommentTextEmpty"
    by blast
  from k2 f o t have 2: "map c_text (the (p_comments (lessonPlans (projr
     (post_lesson_plan_comment mockDb 1 (Some [32, 79, 32, 75, 10]) mockNow)) ! 0))) =
     [[79, 32, 75]]"
    by auto
  from 1 2 show ?thesis by (rule conjI)
qed


section \<open>The transition table and the code\<close>

text \<open>
  Claim C1 says that a transition outside the table fails with an error and changes
  nothing. Plan 5 of the sample data is a draft, and the table has no transition from
  a draft to ApprovedByTeam or to RejectedByTeam. The status endpoint still applies
  \<open>APPROVED_BY_TL\<close> and appends a history entry; and a rejection confirmed by the team
  leader on the draft is sent and applied.
\<close>

theorem transition_unchecked_counterexample:
  "p_status (lessonPlans mockDb ! 2) = DRAFT \<and>
   spec_table DRAFT TeamApprove = None \<and>
   spec_table DRAFT InstitutionCancel = None \<and>
   \<not> isl (put_lesson_plan_status mockDb 5 APPROVED_BY_TL None mockNow) \<and>
   p_status (lessonPlans (projr (put_lesson_plan_status mockDb 5 APPROVED_BY_TL None mockNow)) ! 2)
     = APPROVED_BY_TL \<and>
   length (p_history (lessonPlans mockDb ! 2)) = 1 \<and>
   length (p_history
     (lessonPlans (projr (put_lesson_plan_status mockDb 5 APPROVED_BY_TL None mockNow)) ! 2)) = 2 \<and>
   spec_table DRAFT TeamReject = None \<and>
   handleConfirmAction reject user4 plan5 (Some [110, 111]) =
     OnAction 5 REJECTED_BY_TL (Some [110, 111]) \<and>
   \<not> isl (performEffect user4 mockDb mockNow
           (handleConfirmAction reject user4 plan5 (Some [110, 111]))) \<and>
   p_status (lessonPlans (projr (performEffect user4 mockDb mockNow
           (handleConfirmAction reject user4 plan5 (Some [110, 111])))) ! 2) = REJECTED_BY_TL"
  by (simp add: put_lesson_plan_status_def statusUpdate_def handleConfirmAction_def
      handleLessonPlanAction_def trim_def isWhiteSpace_def mock_defs)

lemma offered_in_table:
  assumes "a \<in> set (renderApprovalActions currentUser plan d)"
    and "handleConfirmAction a currentUser plan reason = OnAction planId s r"
  shows "planId = p_id plan \<and> r = reason \<and>
         (\<exists>T \<in> set (spec_transitions_of a). spec_table (p_status plan) T = Some s)"
proof -
  from assms(1) have "p_status plan = SUBMITTED \<and> canApproveTeam currentUser plan d \<and> a \<noteq> cancel
      \<or> p_status plan = APPROVED_BY_TL \<and> canApproveTeam currentUser plan d \<and> a = cancel
      \<or> p_status plan = APPROVED_BY_TL \<and> \<not> canApproveTeam currentUser plan d \<and>
          canApprovePrincipal currentUser d \<and> a \<noteq> cancel
      \<or> p_status plan = APPROVED \<and> canApprovePrincipal currentUser d \<and> a = cancel"
    by (auto simp: renderApprovalActions_def split: if_splits)
  with assms(2) show ?thesis
    by (cases a)
       (auto simp: handleConfirmAction_def canApproveTeam_def canApprovePrincipal_def
             split: if_splits)
qed

lemma unlisted_closes:
  assumes "a = approve \<or> a = cancel"
    and "\<forall>T \<in> set (spec_transitions_of a). spec_table (p_status plan) T = None"
  shows "handleConfirmAction a currentUser plan reason = CloseModal"
  using assms by (cases "p_status plan") (auto simp: handleConfirmAction_def)

lemma teacher_in_table:
  assumes "b \<in> set (renderTeacherActions currentUser plan)"
    and "teacherButtonStatus b = Some s"
  shows "spec_table (p_status plan) (if b = SubmitButton then Submit else Recall) = Some s"
  using assms
  by (cases "p_status plan"; cases b)
     (auto simp: renderTeacherActions_def split: if_splits)

lemma status_fails_iff:
  "isl (put_lesson_plan_status db planId newStatus reason now) \<longleftrightarrow>
     planId \<notin> p_id ` set (lessonPlans db)"
  by (auto simp: put_lesson_plan_status_def findIndex_None split: option.splits
           dest: findIndex_Some)


text \<open>
  Claim C1, amended. The table is kept by the card of the client. Every approval
  action the card offers, once confirmed, asks for the status the table gives for the
  plan's status under one of the transitions of that action, and so do the submit and
  recall buttons of the owner. An approve or a cancel confirmed on a plan whose status
  has no such transition closes the dialog: no request, no error, the data unchanged.
  The status endpoint itself fails only for an unknown plan, as not found.
\<close>

theorem table_kept_by_card:
  "(a \<in> set (renderApprovalActions currentUser plan d) \<and>
    handleConfirmAction a currentUser plan reason = OnAction planId s r \<longrightarrow>
      planId = p_id plan \<and> r = reason \<and>
      (\<exists>T \<in> set (spec_transitions_of a). spec_table (p_status plan) T = Some s)) \<and>
   (b \<in> set (renderTeacherActions currentUser plan) \<and> teacherButtonStatus b = Some s' \<longrightarrow>
      spec_table (p_status plan) (if b = SubmitButton then Submit else Recall) = Some s') \<and>
   ((a' = approve \<or> a' = cancel) \<and>
    (\<forall>T \<in> set (spec_transitions_of a'). spec_table (p_status plan) T = None) \<longrightarrow>
      handleConfirmAction a' currentUser plan reason = CloseModal \<and>
      performEffect currentUser db now (handleConfirmAction a' currentUser plan reason) = Inr db) \<and>
   (isl (put_lesson_plan_status db planId' newStatus reason' now) \<longleftrightarrow>
      planId' \<notin> p_id ` set (lessonPlans db)) \<and>
   (put_lesson_plan_status db planId' newStatus reason' now = Inl e \<longrightarrow> e = LessonPlanNotFound)"
proof (intro conjI impI)
  assume "a \<in> set (renderApprovalActions currentUser plan d) \<and>
    handleConfirmAction a currentUser plan reason = OnAction planId s r"
  then have o: "planId = p_id plan \<and> r = reason \<and>
      (\<exists>T \<in> set (spec_transitions_of a). spec_table (p_status plan) T = Some s)"
    using offered_in_table by blast
  from o show "planId = p_id plan" by (rule conjunct1)
  from o show "r = reason" by blast
  from o show "\<exists>T \<in> set (spec_transitions_of a). spec_table (p_status plan) T = Some s"
    by blast
next
  assume "b \<in> set (renderTeacherActions currentUser plan) \<and> teacherButtonStatus b = Some s'"
  then show "spec_table (p_status plan) (if b = SubmitButton then Submit else Recall) = Some s'"
    using teacher_in_table by blast
next
  assume h: "(a' = approve \<or> a' = cancel) \<and>
    (\<forall>T \<in> set (spec_transitions_of a'). spec_table (p_status plan) T = None)"
  then show c: "handleConfirmAction a' currentUser plan reason = CloseModal"
    using unlisted_closes by blast
  show "performEffect currentUser db now (handleConfirmAction a' currentUser plan reason) = Inr db"
    by (simp add: c)
next
  show "isl (put_lesson_plan_status db planId' newStatus reason' now) \<longleftrightarrow>
      planId' \<notin> p_id ` set (lessonPlans db)"
    by (rule status_fails_iff)
next
  assume "put_lesson_plan_status db planId' newStatus reason' now = Inl e"
  then show "e = LessonPlanNotFound"
    by (auto simp: put_lesson_plan_status_def split: option.splits)
qed

theorem table_kept_by_card_witness:
  "approve \<in> set (renderApprovalActions user4 plan1 mockDelegation) \<and>
   handleConfirmAction approve user4 plan1 None = OnAction 1 APPROVED_BY_TL None \<and>
   spec_table (p_status plan1) TeamApprove = Some APPROVED_BY_TL \<and>
   handleConfirmAction approve user4 plan5 None = CloseModal \<and>
   performEffect user4 mockDb mockNow (handleConfirmAction approve user4 plan5 None) = Inr mockDb \<and>
   isl (put_lesson_plan_status mockDb 7 APPROVED None mockNow)"
proof -
  have a: "approve \<in> set (renderApprovalActions user4 plan1 mockDelegation)"
    by (simp add: renderApprovalActions_def canApproveTeam_def mock_defs)
  have h: "handleConfirmAction approve user4 plan1 None = OnAction 1 APPROVED_BY_TL None"
    by (simp add: handleConfirmAction_def mock_defs)
  have s: "p_status plan1 = SUBMITTED" "p_status plan5 = DRAFT"
    by (simp_all add: mock_defs)
  have n: "7 \<notin> p_id ` set (lessonPlans mockDb)"
    by (simp add: mock_defs)
  note k = table_kept_by_card [of approve user4 plan1 mockDelegation None 1 APPROVED_BY_TL None
      SubmitButton SUBMITTED approve mockDb mockNow 7 APPROVED None LessonPlanNotFound]
  note k5 = table_kept_by_card [of approve user4 plan5 mockDelegation None 1 APPROVED_BY_TL None
      SubmitButton SUBMITTED approve mockDb mockNow 7 APPROVED None LessonPlanNotFound]
  from k n have 1: "isl (put_lesson_plan_status mockDb 7 APPROVED None mockNow)"
    by blast
  from k5 s have 2: "handleConfirmAction approve user4 plan5 None = CloseModal \<and>
   performEffect user4 mockDb mockNow (handleConfirmAction approve user4 plan5 None) = Inr mockDb"
    by simp
  from s have 3: "spec_table (p_status plan1) TeamApprove = Some APPROVED_BY_TL"
    by simp
  from a h 1 2 3 show ?thesis by blast
qed

section \<open>Tenant scope\<close>

text \<open>
  Claim C2 says that an actor of another school is refused on every transition. User
  10 is the principal of the second school and plan 3 belongs to the first: the guard
  of the card offers approve and reject, and the confirmed approval is applied.
\<close>

theorem other_school_counterexample:
  "u_role user10 = PRINCIPAL \<and>
   u_schoolId user10 = Some ''THPT-SONTINH'' \<and>
   p_schoolId plan3 = Some ''THCS-BINHSON'' \<and>
   lessonPlans mockDb ! 1 = plan3 \<and>
   renderApprovalActions user10 plan3 mockDelegation = [approve, reject] \<and>
   handleConfirmAction approve user10 plan3 None = OnAction 3 APPROVED None \<and>
   \<not> isl (performEffect user10 mockDb mockNow (handleConfirmAction approve user10 plan3 None)) \<and>
   p_status (lessonPlans (projr (performEffect user10 mockDb mockNow
       (handleConfirmAction approve user10 plan3 None))) ! 1) = APPROVED \<and>
   p_status plan3 = APPROVED_BY_TL"
  by (simp add: renderApprovalActions_def canApproveTeam_def canApprovePrincipal_def
      handleConfirmAction_def handleLessonPlanAction_def put_lesson_plan_status_def
      statusUpdate_def mock_defs)

text \<open>
  Claim C2, amended. Tenant scope is kept by the listing. A plan that gets a card on
  the dashboard has the school id of the selected school, and the current user is not
  the global administrator; when the current user logged in under the selected school
  the plan's school is the user's own. A plan of another school gets no card, so no
  action is offered on it.
\<close>

theorem other_school_not_listed:
  assumes "p \<in> set (baseVisiblePlans currentUser (dashboardLessonPlans currentUser selectedSchool plans))"
  shows "(\<exists>school. selectedSchool = Some school \<and> p_schoolId p = Some (s_id school)) \<and>
         u_role currentUser \<noteq> ADMIN \<and>
         (handleLogin credentials knownUsers selectedSchool = Some currentUser \<longrightarrow>
            p_schoolId p = u_schoolId currentUser)"
proof -
  from assms have r: "u_role currentUser \<noteq> ADMIN"
    by (auto simp: baseVisiblePlans_def)
  with assms have "p \<in> set (schoolLessonPlans selectedSchool plans)"
    by (cases "u_role currentUser") (auto simp: baseVisiblePlans_def dashboardLessonPlans_def)
  then obtain school where s: "selectedSchool = Some school" "p_schoolId p = Some (s_id school)"
    by (cases selectedSchool) (auto simp: schoolLessonPlans_def)
  have "p_schoolId p = u_schoolId currentUser"
    if "handleLogin credentials knownUsers selectedSchool = Some currentUser"
  proof -
    from that have "u_schoolId currentUser = map_option s_id selectedSchool \<or> u_role currentUser = ADMIN"
      by (auto simp: handleLogin_def find_Some_iff)
    with r s show ?thesis by simp
  qed
  with r s show ?thesis by blast
qed

theorem other_school_not_listed_witness:
  "plan3 \<notin> set (baseVisiblePlans user10 (dashboardLessonPlans user10 (Some school2) (lessonPlans mockDb))) \<and>
   handleLogin (\<lambda>u. True) [user4, user10] (Some school2) = Some user10 \<and>
   plan3 \<in> set (baseVisiblePlans user2 (dashboardLessonPlans user2 (Some school1) (lessonPlans mockDb))) \<and>
   handleLogin (\<lambda>u. True) [user2, user10] (Some school1) = Some user2 \<and>
   p_schoolId plan3 = u_schoolId user2"
proof -
  have l: "handleLogin (\<lambda>u. True) [user4, user10] (Some school2) = Some user10"
    "handleLogin (\<lambda>u. True) [user2, user10] (Some school1) = Some user2"
    by (simp_all add: handleLogin_def mock_defs)
  have d: "p_schoolId plan3 \<noteq> u_schoolId user10"
    by (simp add: mock_defs)
  have v: "plan3 \<in> set (baseVisiblePlans user2 (dashboardLessonPlans user2 (Some school1) (lessonPlans mockDb)))"
    by (simp add: baseVisiblePlans_def dashboardLessonPlans_def schoolLessonPlans_def mock_defs)
  from other_school_not_listed [of plan3 user10 "Some school2" "lessonPlans mockDb" "\<lambda>u. True" "[user4, user10]"]
    l d
  have 1: "plan3 \<notin> set (baseVisiblePlans user10 (dashboardLessonPlans user10 (Some school2) (lessonPlans mockDb)))"
    by blast
  from other_school_not_listed [OF v, of "\<lambda>u. True" "[user2, user10]"] l
  have 2: "p_schoolId plan3 = u_schoolId user2"
    by blast
  from 1 2 l v show ?thesis by blast
qed

section \<open>Rejecting with a reason\<close>

text \<open>
  Claim C4 says that a rejection with a reason that is not empty succeeds. A reason of
  one space is not empty, and it is refused as missing: the dialog trims the reason.
  The claim also says that an empty reason fails; the status endpoint by itself takes
  a rejection with an empty reason and appends a history entry.
\<close>

theorem blank_reason_counterexample:
  "[32] \<noteq> ([] :: jsstring) \<and>
   u_role user4 = TEAM_LEADER \<and>
   renderApprovalActions user4 plan1 mockDelegation = [approve, reject] \<and>
   handleConfirmAction reject user4 plan1 (Some [32]) = NotifyMissingReason \<and>
   performEffect user4 mockDb mockNow (handleConfirmAction reject user4 plan1 (Some [32])) =
     Inr mockDb \<and>
   \<not> isl (put_lesson_plan_status mockDb 1 REJECTED_BY_TL (Some []) mockNow) \<and>
   length (p_history (lessonPlans mockDb ! 0)) = 1 \<and>
   map h_reason (p_history (lessonPlans
     (projr (put_lesson_plan_status mockDb 1 REJECTED_BY_TL (Some []) mockNow)) ! 0)) =
     [None, None]"
  by (simp add: handleConfirmAction_def renderApprovalActions_def canApproveTeam_def
      put_lesson_plan_status_def statusUpdate_def trim_def isWhiteSpace_def mock_defs)

lemma reasonBlank_iff:
  "reasonBlank reason \<longleftrightarrow>
     reason = None \<or> (\<exists>r. reason = Some r \<and> (\<forall>c \<in> set r. isWhiteSpace c))"
  by (cases reason) (simp_all add: trim_blank_iff)

text \<open>
  Claim C4, amended. A rejection confirmed in the dialog with no reason, or with a
  reason that is empty or white space only, ends in the notice that the reason is
  missing, whoever the user is, and the data is unchanged. With a reason that has a
  character other than white space, a teacher or the global administrator gets the
  dialog closed (not the notice); for every other role and a stored plan the request
  succeeds, the plan gets the rejected status of the role's tier, and its history gets
  one more entry with the label of that rejection and the reason as it was typed.
\<close>

theorem reject_needs_reason:
  fixes currentUser :: User and plan :: LessonPlan and db :: Db
  defines "rejected \<equiv>
     (if u_role currentUser = TEAM_LEADER \<or> u_role currentUser = DEPUTY_TEAM_LEADER
      then REJECTED_BY_TL else REJECTED_BY_VP)"
  shows
    "(reason = None \<or> (\<exists>r0. reason = Some r0 \<and> (\<forall>c \<in> set r0. isWhiteSpace c)) \<longrightarrow>
        handleConfirmAction reject currentUser plan reason = NotifyMissingReason \<and>
        performEffect currentUser db now (handleConfirmAction reject currentUser plan reason) =
          Inr db) \<and>
     (reason = Some r \<and> (\<exists>c \<in> set r. \<not> isWhiteSpace c) \<and>
      (u_role currentUser = TEACHER \<or> u_role currentUser = ADMIN) \<longrightarrow>
        handleConfirmAction reject currentUser plan reason = CloseModal) \<and>
     (reason = Some r \<and> (\<exists>c \<in> set r. \<not> isWhiteSpace c) \<and>
      u_role currentUser \<noteq> TEACHER \<and> u_role currentUser \<noteq> ADMIN \<and>
      findIndex (\<lambda>p. p_id p = p_id plan) (lessonPlans db) = Some i \<longrightarrow>
        handleConfirmAction reject currentUser plan reason =
          OnAction (p_id plan) rejected (Some r) \<and>
        (\<exists>db'. performEffect currentUser db now
                  (handleConfirmAction reject currentUser plan reason) = Inr db' \<and>
           p_status (lessonPlans db' ! i) = rejected \<and>
           p_history (lessonPlans db' ! i) =
             p_history (lessonPlans db ! i) @
               [\<lparr>h_action = (if rejected = REJECTED_BY_TL then To_truong_tu_choi
                              else Hieu_truong_tu_choi),
                 h_user = statusCurrentUser db, h_timestamp = now, h_reason = Some r\<rparr>]))"
proof (intro conjI impI)
  assume "reason = None \<or> (\<exists>r0. reason = Some r0 \<and> (\<forall>c \<in> set r0. isWhiteSpace c))"
  then have "reasonBlank reason" by (simp add: reasonBlank_iff)
  then show n: "handleConfirmAction reject currentUser plan reason = NotifyMissingReason"
    by (simp add: handleConfirmAction_def)
  show "performEffect currentUser db now (handleConfirmAction reject currentUser plan reason) =
          Inr db"
    by (simp add: n)
next
  assume "reason = Some r \<and> (\<exists>c \<in> set r. \<not> isWhiteSpace c) \<and>
      (u_role currentUser = TEACHER \<or> u_role currentUser = ADMIN)"
  then show "handleConfirmAction reject currentUser plan reason = CloseModal"
    by (auto simp: handleConfirmAction_def trim_blank_iff)
next
  assume h: "reason = Some r \<and> (\<exists>c \<in> set r. \<not> isWhiteSpace c) \<and>
      u_role currentUser \<noteq> TEACHER \<and> u_role currentUser \<noteq> ADMIN \<and>
      findIndex (\<lambda>p. p_id p = p_id plan) (lessonPlans db) = Some i"
  then have nb: "\<not> reasonBlank reason" and ne: "r \<noteq> []"
    by (auto simp: trim_blank_iff)
  from h have f: "findIndex (\<lambda>p. p_id p = p_id plan) (lessonPlans db) = Some i"
    by simp
  then have len: "i < length (lessonPlans db)"
    by (simp add: findIndex_Some)
  from h nb show c: "handleConfirmAction reject currentUser plan reason =
          OnAction (p_id plan) rejected (Some r)"
    by (cases "u_role currentUser") (simp_all add: handleConfirmAction_def rejected_def)
  have a: "statusAction rejected =
      (if rejected = REJECTED_BY_TL then To_truong_tu_choi else Hieu_truong_tu_choi)"
    and ni: "rejected \<noteq> ISSUED"
    by (simp_all add: rejected_def)
  show "\<exists>db'. performEffect currentUser db now
                  (handleConfirmAction reject currentUser plan reason) = Inr db' \<and>
           p_status (lessonPlans db' ! i) = rejected \<and>
           p_history (lessonPlans db' ! i) =
             p_history (lessonPlans db ! i) @
               [\<lparr>h_action = (if rejected = REJECTED_BY_TL then To_truong_tu_choi
                              else Hieu_truong_tu_choi),
                 h_user = statusCurrentUser db, h_timestamp = now, h_reason = Some r\<rparr>]"
    using len ne ni
    by (simp add: c handleLessonPlanAction_def status_found [OF f] statusUpdate_def Let_def
        a [symmetric])
qed

theorem reject_needs_reason_witness:
  "handleConfirmAction reject user4 plan1 (Some []) = NotifyMissingReason \<and>
   handleConfirmAction reject user6 plan1 (Some [110, 111]) = CloseModal \<and>
   handleConfirmAction reject user4 plan1 (Some [110, 111]) =
     OnAction 1 REJECTED_BY_TL (Some [110, 111]) \<and>
   p_status (lessonPlans (projr (performEffect user4 mockDb mockNow
       (handleConfirmAction reject user4 plan1 (Some [110, 111])))) ! 0) = REJECTED_BY_TL \<and>
   map h_reason (p_history (lessonPlans (projr (performEffect user4 mockDb mockNow
       (handleConfirmAction reject user4 plan1 (Some [110, 111])))) ! 0)) =
     [None, Some [110, 111]]"
proof -
  have f: "findIndex (\<lambda>p. p_id p = p_id plan1) (lessonPlans mockDb) = Some 0"
    by (simp add: mock_defs)
  have w: "\<exists>c \<in> set [110, 111]. \<not> isWhiteSpace c" "\<forall>c \<in> set []. isWhiteSpace c"
    by (simp_all add: isWhiteSpace_def)
  have r: "u_role user4 = TEAM_LEADER" "u_role user6 = TEACHER"
    by (simp_all add: mock_defs)
  have o: "map h_reason (p_history (lessonPlans mockDb ! 0)) = [None]"
    by (simp add: mock_defs)
  note k1 = reject_needs_reason [of "Some []" user4 plan1 mockDb mockNow "[]" 0, THEN conjunct1]
  note k2 = reject_needs_reason [of "Some [110, 111]" user6 plan1 mockDb mockNow "[110, 111]" 0,
      THEN conjunct2, THEN conjunct1]
  note k3 = reject_needs_reason [of "Some [110, 111]" user4 plan1 mockDb mockNow "[110, 111]" 0,
      THEN conjunct2, THEN conjunct2]
  from k1 w have 1: "handleConfirmAction reject user4 plan1 (Some []) = NotifyMissingReason"
    by blast
  from k2 w r have 2: "handleConfirmAction reject user6 plan1 (Some [110, 111]) = CloseModal"
    by blast
  have prem: "Some [110, 111] = Some [110, 111] \<and> (\<exists>c \<in> set [110, 111]. \<not> isWhiteSpace c) \<and>
      u_role user4 \<noteq> TEACHER \<and> u_role user4 \<noteq> ADMIN \<and>
      findIndex (\<lambda>p. p_id p = p_id plan1) (lessonPlans mockDb) = Some 0"
    using w r f by simp
  from k3 [THEN mp, OF prem] obtain db' where
    c: "handleConfirmAction reject user4 plan1 (Some [110, 111]) =
          OnAction (p_id plan1)
            (if u_role user4 = TEAM_LEADER \<or> u_role user4 = DEPUTY_TEAM_LEADER
             then REJECTED_BY_TL else REJECTED_BY_VP) (Some [110, 111])"
    and e: "performEffect user4 mockDb mockNow
              (handleConfirmAction reject user4 plan1 (Some [110, 111])) = Inr db'"
    and st: "p_status (lessonPlans db' ! 0) =
          (if u_role user4 = TEAM_LEADER \<or> u_role user4 = DEPUTY_TEAM_LEADER
           then REJECTED_BY_TL else REJECTED_BY_VP)"
    and hi: "map h_reason (p_history (lessonPlans db' ! 0)) =
          map h_reason (p_history (lessonPlans mockDb ! 0)) @ [Some [110, 111]]"
    by auto
  have i: "p_id plan1 = 1" by (simp add: mock_defs)
  from c r i have 4: "handleConfirmAction reject user4 plan1 (Some [110, 111]) =
     OnAction 1 REJECTED_BY_TL (Some [110, 111])"
    by simp
  from e st r have 5: "p_status (lessonPlans (projr (performEffect user4 mockDb mockNow
       (handleConfirmAction reject user4 plan1 (Some [110, 111])))) ! 0) = REJECTED_BY_TL"
    by simp
  from e hi o have 6: "map h_reason (p_history (lessonPlans (projr (performEffect user4 mockDb mockNow
       (handleConfirmAction reject user4 plan1 (Some [110, 111])))) ! 0)) =
     [None, Some [110, 111]]"
    by simp
  from 1 2 4 5 6 show ?thesis by blast
qed

section \<open>Team roles\<close>

text \<open>
  Claim C5 says that after an assignment nobody holds both slots of a team. In the
  sample data team 1 has user 4 as leader and user 5 as deputy; assigning user 4 as
  deputy leaves user 4 in both slots.
\<close>

theorem assign_role_both_slots_counterexample:
  "\<not> isl (post_team_assign_role mockDb 1 ''deputy'' (Some 4)) \<and>
   teams (fst (projr (post_team_assign_role mockDb 1 ''deputy'' (Some 4)))) =
     [team1\<lparr>t_deputyLeaderId := Some 4\<rparr>] \<and>
   t_leaderId (team1\<lparr>t_deputyLeaderId := Some 4\<rparr>) = Some 4 \<and>
   t_deputyLeaderId (team1\<lparr>t_deputyLeaderId := Some 4\<rparr>) = Some 4"
  by (simp add: post_team_assign_role_def setRole_def Let_def mock_defs)

text \<open>
  Claim C5, amended. An assignment on a known team succeeds, puts the given user (or
  nobody) into the requested slot and leaves the other slot of the team as it was. So
  a user who holds the other slot and is assigned to the requested one holds both.
\<close>

theorem assign_role_slots:
  assumes "findIndex (\<lambda>t. t_id t = teamId) (teams db) = Some i"
  shows "\<exists>db' team updated.
     post_team_assign_role db teamId roleType userId = Inr (db', team, updated) \<and>
     teams db' = (teams db)[i := team] \<and>
     (if roleType = ''leader''
      then t_leaderId team = truthyId userId \<and>
           t_deputyLeaderId team = t_deputyLeaderId (teams db ! i)
      else t_deputyLeaderId team = truthyId userId \<and>
           t_leaderId team = t_leaderId (teams db ! i)) \<and>
     (roleType \<noteq> ''leader'' \<and> t_leaderId (teams db ! i) = Some u \<and> userId = Some u \<and> u \<noteq> 0
        \<longrightarrow> t_leaderId team = Some u \<and> t_deputyLeaderId team = Some u) \<and>
     (roleType = ''leader'' \<and> t_deputyLeaderId (teams db ! i) = Some u \<and> userId = Some u \<and> u \<noteq> 0
        \<longrightarrow> t_leaderId team = Some u \<and> t_deputyLeaderId team = Some u)"
  using assms
  by (simp add: post_team_assign_role_def Let_def split: prod.splits)

theorem assign_role_slots_witness:
  "findIndex (\<lambda>t. t_id t = 1) (teams mockDb) = Some 0 \<and>
   t_leaderId (fst (snd (projr (post_team_assign_role mockDb 1 ''deputy'' (Some 4))))) = Some 4 \<and>
   t_deputyLeaderId (fst (snd (projr (post_team_assign_role mockDb 1 ''deputy'' (Some 4))))) = Some 4"
proof -
  have f: "findIndex (\<lambda>t. t_id t = 1) (teams mockDb) = Some 0"
    by (simp add: mock_defs)
  have o: "t_leaderId (teams mockDb ! 0) = Some 4"
    by (simp add: mock_defs)
  from assign_role_slots [OF f, of "''deputy''" "Some 4" 4] f o
  show ?thesis by auto
qed

end
